theory Spec2Isabelle
  imports Main "HOL-Library.AList"
begin

section \<open>JavaScript values\<close>

text \<open>
  The values that \<^verbatim>\<open>JSON.parse\<close> produces and that the handlers pass around.
  Numbers are the integers (status codes, lengths, offsets); \<open>JUndefined\<close> is what reading
  a missing property gives. An object is the list of its own properties in insertion order.
\<close>

datatype jsval =
    JUndefined
  | JNull
  | JBool bool
  | JNum int
  | JStr string
  | JArr "jsval list"
  | JObj "(string \<times> jsval) list"

datatype js_error = TypeError | SyntaxError | ScuError | DicomParseError

text \<open>What \<^verbatim>\<open>if (v)\<close>, \<^verbatim>\<open>!v\<close> and \<^verbatim>\<open>a && b\<close> test.\<close>

fun truthy :: "jsval \<Rightarrow> bool" where
  "truthy JUndefined = False"
| "truthy JNull = False"
| "truthy (JBool b) = b"
| "truthy (JNum n) = (n \<noteq> 0)"
| "truthy (JStr s) = (s \<noteq> [])"
| "truthy (JArr xs) = True"
| "truthy (JObj kvs) = True"

text \<open>
  Reading a property \<^verbatim>\<open>v.name\<close>, for the names the program reads (\<^verbatim>\<open>code\<close>,
  \<^verbatim>\<open>container\<close>, \<^verbatim>\<open>SOPInstanceUID\<close>, \<^verbatim>\<open>Value\<close> and tag keys): it throws a TypeError
  on \<^verbatim>\<open>undefined\<close> and \<^verbatim>\<open>null\<close>, gives the stored value on an object that has
  the property, and \<^verbatim>\<open>undefined\<close> everywhere else.
\<close>

fun get_prop :: "jsval \<Rightarrow> string \<Rightarrow> js_error + jsval" where
  "get_prop JUndefined name = Inl TypeError"
| "get_prop JNull name = Inl TypeError"
| "get_prop (JObj kvs) name =
     Inr (case map_of kvs name of None \<Rightarrow> JUndefined | Some v \<Rightarrow> v)"
| "get_prop v name = Inr JUndefined"

text \<open>Reading an element \<^verbatim>\<open>v[i]\<close>.\<close>

fun get_index :: "jsval \<Rightarrow> nat \<Rightarrow> js_error + jsval" where
  "get_index JUndefined i = Inl TypeError"
| "get_index JNull i = Inl TypeError"
| "get_index (JArr xs) i = Inr (if i < length xs then xs ! i else JUndefined)"
| "get_index (JStr s) i = Inr (if i < length s then JStr [s ! i] else JUndefined)"
| "get_index v i = Inr JUndefined"

section \<open>Configuration\<close>

record peer =
  aet :: string
  ip :: string
  port :: string

text \<open>The values of \<^verbatim>\<open>config.get\<close>, one field per key read.\<close>

record config =
  cfg_source :: peer
  cfg_target :: peer
  cfg_storagePath :: string
  cfg_useCget :: bool
  cfg_keepCacheInMinutes :: int
  cfg_qidoMinChars :: int
  cfg_qidoAppendWildcard :: bool

section \<open>The retrieve coordinator: \<^verbatim>\<open>fetchData\<close> and \<^verbatim>\<open>waitOrFetchData\<close>\<close>

text \<open>
  A promise is pending, resolved with a value or rejected with an error; once settled it
  stays as it is, whatever \<^verbatim>\<open>resolve\<close> or \<^verbatim>\<open>reject\<close> is called later.
\<close>

datatype outcome = Pending | Resolved jsval | Rejected js_error

datatype scu_kind = GetScu | MoveScu

record retrieve_request =
  r_tags :: "(string \<times> string) list"
  r_source :: peer
  r_target :: peer
  r_storagePath :: string

text \<open>
  One invocation of the archive-retrieve collaborator: the function chosen, the request
  handed to it, and what its callback closes over (study, series, the first-image flag and
  the promise it settles).
\<close>

record scu_call =
  c_scu :: scu_kind
  c_request :: retrieve_request
  c_studyUid :: string
  c_seriesUid :: string
  c_waitForFirstImageOnly :: bool
  c_prom :: nat

text \<open>
  The shared state: the \<^verbatim>\<open>lock\<close> map from series id to promise, the promises created so
  far (a promise is named by its position), every invocation of \<^verbatim>\<open>getScu\<close>/\<^verbatim>\<open>moveScu\<close>
  in order, and the studies for which a \<^verbatim>\<open>storage.getItem(...).then(...)\<close>
  continuation has been scheduled and has not run yet.
\<close>

record coordinator =
  lock :: "string \<rightharpoonup> nat"
  promises :: "outcome list"
  scu_calls :: "scu_call list"
  then_queue :: "string list"

definition settle :: "nat \<Rightarrow> outcome \<Rightarrow> coordinator \<Rightarrow> coordinator" where
  "settle p out st =
     (if p < length (promises st) \<and> promises st ! p = Pending
      then st\<lparr>promises := (promises st)[p := out]\<rparr>
      else st)"

text \<open>
  \<^verbatim>\<open>fetchData\<close> runs without a suspension point: it builds the request, creates the
  promise, whose executor calls the collaborator at once, and only then stores the promise
  in \<^verbatim>\<open>lock\<close>. The collaborator either takes the request, and reports through its
  callback later, or throws, which the executor catches and turns into a rejection;
  \<open>scu_throws\<close> says which. The handle returned stands for \<^verbatim>\<open>prom\<close>, whose outcome
  the promise of the async function adopts.
\<close>

definition fetchData ::
  "config \<Rightarrow> bool \<Rightarrow> string \<Rightarrow> string \<Rightarrow> bool \<Rightarrow> coordinator \<Rightarrow> nat \<times> coordinator" where
  "fetchData cfg scu_throws studyUid seriesUid waitForFirstImageOnly st =
     (let j = \<lparr>r_tags = [(''00080052'', ''SERIES''), (''0020000D'', studyUid),
                         (''0020000E'', seriesUid)],
                  r_source = cfg_source cfg, r_target = cfg_target cfg,
                  r_storagePath = cfg_storagePath cfg\<rparr>;
          scu = (if cfg_useCget cfg then GetScu else MoveScu);
          prom = length (promises st);
          call = \<lparr>c_scu = scu, c_request = j, c_studyUid = studyUid,
                   c_seriesUid = seriesUid,
                   c_waitForFirstImageOnly = waitForFirstImageOnly, c_prom = prom\<rparr>;
          st1 = st\<lparr>promises := promises st @ [if scu_throws then Rejected ScuError else Pending],
                    scu_calls := scu_calls st @ [call]\<rparr>
      in (prom, st1\<lparr>lock := (lock st1)(seriesUid \<mapsto> prom)\<rparr>))"

definition waitOrFetchData ::
  "config \<Rightarrow> bool \<Rightarrow> string \<Rightarrow> string \<Rightarrow> bool \<Rightarrow> coordinator \<Rightarrow> nat \<times> coordinator" where
  "waitOrFetchData cfg scu_throws studyUid seriesUid waitForFirstImageOnly st =
     (case lock st seriesUid of
        Some prom \<Rightarrow> (prom, st)
      | None \<Rightarrow> fetchData cfg scu_throws studyUid seriesUid waitForFirstImageOnly st)"

text \<open>
  The callback handed to the collaborator. \<open>JSON_parse\<close> is \<^verbatim>\<open>JSON.parse\<close>: \<open>None\<close>
  when it throws. In the first branch the identifier goes through \<^verbatim>\<open>path.join\<close> for
  the log line, which throws on a value that is not a string. What the \<^verbatim>\<open>try\<close> block
  decides:
\<close>

datatype action = Resolve jsval | ResolveAndCache jsval | LogOnly

definition callback_try ::
  "(jsval \<Rightarrow> jsval option) \<Rightarrow> bool \<Rightarrow> string \<Rightarrow> js_error + action" where
  "callback_try JSON_parse waitForFirstImageOnly result =
     (case JSON_parse (JStr result) of
        None \<Rightarrow> Inl SyntaxError
      | Some json \<Rightarrow>
          (case get_prop json ''code'' of
             Inl e \<Rightarrow> Inl e
           | Inr code \<Rightarrow>
               if waitForFirstImageOnly \<and> code = JNum 1 then
                 (case get_prop json ''container'' of
                    Inl e \<Rightarrow> Inl e
                  | Inr container \<Rightarrow>
                      (case get_prop container ''SOPInstanceUID'' of
                         Inl e \<Rightarrow> Inl e
                       | Inr uid \<Rightarrow>
                           if truthy uid then
                             (case uid of
                                JStr s \<Rightarrow> Inr (Resolve json)
                              | _ \<Rightarrow> Inl TypeError)
                           else Inr LogOnly))
               else if code = JNum 0 \<or> code = JNum 2 then Inr (ResolveAndCache json)
               else Inr LogOnly))"

definition scu_callback ::
  "(jsval \<Rightarrow> jsval option) \<Rightarrow> scu_call \<Rightarrow> string \<Rightarrow> coordinator \<Rightarrow> coordinator" where
  "scu_callback JSON_parse c result st =
     (let st1 =
        (case callback_try JSON_parse (c_waitForFirstImageOnly c) result of
           Inl e \<Rightarrow> settle (c_prom c) (Rejected e) st
         | Inr (Resolve json) \<Rightarrow> settle (c_prom c) (Resolved json) st
         | Inr (ResolveAndCache json) \<Rightarrow>
             settle (c_prom c) (Resolved json)
               (st\<lparr>then_queue := then_queue st @ [c_studyUid c]\<rparr>)
         | Inr LogOnly \<Rightarrow> st)
      in st1\<lparr>lock := (lock st1)(c_seriesUid c := None)\<rparr>)"

section \<open>The cache store\<close>

text \<open>
  Instants are the integer milliseconds that \<^verbatim>\<open>Date.getTime\<close> reports, and the
  retention is a whole number of minutes. \<^verbatim>\<open>new Date(ms)\<close> is a date only within
  8640000000000000 milliseconds of the epoch; beyond that it is an Invalid Date, here
  \<open>None\<close>.
\<close>

definition new_Date :: "int \<Rightarrow> int option" where
  "new_Date ms = (if \<bar>ms\<bar> \<le> 8640000000000000 then Some ms else None)"

text \<open>\<^verbatim>\<open>addMinutes\<close> on the instant of a date.\<close>

definition addMinutes :: "int \<Rightarrow> int \<Rightarrow> int option" where
  "addMinutes date minutes = new_Date (date + minutes * 60000)"

text \<open>
  The persistent store keeps, for a study id, the value handed to \<^verbatim>\<open>setItem\<close> as
  JSON: a date as its text, which reads back as the same instant, and an Invalid Date as
  \<^verbatim>\<open>null\<close>, here \<open>None\<close>. It is kept as the list of its entries, in the order
  \<^verbatim>\<open>storage.forEach\<close> visits them.
\<close>

type_synonym storage = "(string \<times> int option) list"

text \<open>
  \<^verbatim>\<open>new Date(item.value).getTime()\<close>: the instant of the stored date, and the epoch
  for a stored \<^verbatim>\<open>null\<close>.
\<close>

definition item_time :: "int option \<Rightarrow> int" where
  "item_time v = (case v of None \<Rightarrow> 0 | Some t \<Rightarrow> t)"

text \<open>
  The continuation of \<^verbatim>\<open>storage.getItem(studyUid)\<close> in the callback, run at instant
  \<open>now\<close> on the item the store holds for the study. \<^verbatim>\<open>!item\<close> holds when the store
  has no entry for the study (\<^verbatim>\<open>undefined\<close>) and when the entry holds \<^verbatim>\<open>null\<close>.
\<close>

definition getItem_then :: "config \<Rightarrow> int \<Rightarrow> string \<Rightarrow> storage \<Rightarrow> storage" where
  "getItem_then cfg now studyUid store =
     (let item = map_of store studyUid
      in if item = None \<or> item = Some None then
           (let cacheTime = cfg_keepCacheInMinutes cfg
            in if cacheTime \<ge> 0
               then AList.update studyUid (addMinutes now cacheTime) store
               else store)
         else store)"

section \<open>The eviction sweep: \<^verbatim>\<open>clearCache\<close>\<close>

text \<open>
  \<open>path_join\<close> is \<^verbatim>\<open>path.join\<close> on its list of arguments. The visit of
  \<^verbatim>\<open>storage.forEach\<close> issues one \<^verbatim>\<open>fs.rmdir\<close> per entry that passes the test; each
  request is kept with what its callback closes over, the key and the directory.
\<close>

fun forEach_visit ::
  "(string list \<Rightarrow> string) \<Rightarrow> string \<Rightarrow> string \<Rightarrow> int \<Rightarrow> storage \<Rightarrow> (string \<times> string) list" where
  "forEach_visit path_join storagePath currentUid currentDate [] = []"
| "forEach_visit path_join storagePath currentUid currentDate ((key, v) # items) =
     (let dt = item_time v;
          directory = path_join [storagePath, key];
          rest = forEach_visit path_join storagePath currentUid currentDate items
      in if dt < currentDate \<and> key \<noteq> currentUid then (key, directory) # rest else rest)"

text \<open>The callback of \<^verbatim>\<open>fs.rmdir\<close>: on an error it only logs, otherwise it removes the key.\<close>

definition rmdir_callback :: "string \<Rightarrow> bool \<Rightarrow> storage \<Rightarrow> storage" where
  "rmdir_callback key error store = (if error then store else AList.delete key store)"

text \<open>
  The requests of one sweep run to completion. \<open>rmdir_error\<close> says for which directories
  the recursive deletion fails; the second component lists the directories deleted.
\<close>

fun rmdir_all ::
  "(string \<Rightarrow> bool) \<Rightarrow> (string \<times> string) list \<Rightarrow> storage \<times> string list \<Rightarrow> storage \<times> string list" where
  "rmdir_all rmdir_error [] (store, deleted) = (store, deleted)"
| "rmdir_all rmdir_error ((key, directory) # requests) (store, deleted) =
     rmdir_all rmdir_error requests
       (rmdir_callback key (rmdir_error directory) store,
        if rmdir_error directory then deleted else deleted @ [directory])"

definition clearCache ::
  "(string list \<Rightarrow> string) \<Rightarrow> (string \<Rightarrow> bool) \<Rightarrow> string \<Rightarrow> string \<Rightarrow> int \<Rightarrow> storage
     \<Rightarrow> storage \<times> string list" where
  "clearCache path_join rmdir_error storagePath currentUid currentDate store =
     rmdir_all rmdir_error
       (forEach_visit path_join storagePath currentUid currentDate store) (store, [])"

section \<open>The query translator: \<^verbatim>\<open>findDicomName\<close> and \<^verbatim>\<open>doFind\<close>\<close>

text \<open>
  The data dictionary is the list of its elements, tag key and name, in the order of
  \<^verbatim>\<open>Object.keys\<close>. \<^verbatim>\<open>findDicomName\<close> returns the first key whose name matches, and
  \<^verbatim>\<open>undefined\<close> (here \<open>None\<close>) when the loop ends.
\<close>

fun findDicomName :: "(string \<times> string) list \<Rightarrow> string \<Rightarrow> string option" where
  "findDicomName [] name = None"
| "findDicomName ((key, n) # elements) name =
     (if n = name then Some key else findDicomName elements name)"

text \<open>\<^verbatim>\<open>s.split(",")\<close>.\<close>

fun split_comma :: "string \<Rightarrow> string list" where
  "split_comma [] = [[]]"
| "split_comma (c # cs) =
     (if c = CHR '','' then [] # split_comma cs
      else (c # hd (split_comma cs)) # tl (split_comma cs))"

record find_request =
  f_tags :: "(string \<times> string) list"
  f_source :: peer
  f_target :: peer

text \<open>
  A query is the list of the request's parameters, name and string value, in the order
  \<^verbatim>\<open>for ... in\<close> visits them. The include fields, with the defaults after them:
\<close>

definition include_tags ::
  "(string \<times> string) list \<Rightarrow> (string \<times> string) list \<Rightarrow> string list \<Rightarrow> (string \<times> string) list" where
  "include_tags dict query defaults =
     (let tags = (case map_of query ''includefield'' of
                    None \<Rightarrow> []
                  | Some includes \<Rightarrow> if includes \<noteq> [] then split_comma includes else [])
      in map (\<lambda>element.
                ((case findDicomName dict element of
                    None \<Rightarrow> element
                  | Some tagName \<Rightarrow> if tagName \<noteq> [] then tagName else element), []))
             (tags @ defaults))"

text \<open>
  The loop over the search parameters, with the tags pushed so far; \<open>None\<close> is the
  \<^verbatim>\<open>return []\<close> in the middle of the loop.
\<close>

fun search_params ::
  "(string \<times> string) list \<Rightarrow> config \<Rightarrow> (string \<times> string) list \<Rightarrow> (string \<times> string) list
     \<Rightarrow> (string \<times> string) list option" where
  "search_params dict cfg [] j_tags = Some j_tags"
| "search_params dict cfg ((propName, v) # query) j_tags =
     (case findDicomName dict propName of
        None \<Rightarrow> search_params dict cfg query j_tags
      | Some tag \<Rightarrow>
          if tag = [] then search_params dict cfg query j_tags
          else if tag = ''00100010'' then
            (if cfg_qidoMinChars cfg > int (length v) then None
             else search_params dict cfg query
                    (j_tags @ [(tag, if cfg_qidoAppendWildcard cfg then v @ ''*'' else v)]))
          else search_params dict cfg query (j_tags @ [(tag, v)]))"

text \<open>
  \<open>parseInt\<close> is the builtin, with \<open>None\<close> for \<^verbatim>\<open>NaN\<close>. The offset is read from the
  query: \<^verbatim>\<open>query.offset ? parseInt(query.offset) : 0\<close>.
\<close>

definition query_offset ::
  "(string \<Rightarrow> int option) \<Rightarrow> (string \<times> string) list \<Rightarrow> int option" where
  "query_offset parseInt query =
     (case map_of query ''offset'' of
        None \<Rightarrow> Some 0
      | Some s \<Rightarrow> if s \<noteq> [] then parseInt s else Some 0)"

text \<open>
  \<^verbatim>\<open>doFind\<close> either returns the empty array at once, or calls \<^verbatim>\<open>findScu\<close> with the
  request and returns the promise that the callback settles; the callback closes over
  the offset.
\<close>

datatype find_return = ReturnedEmpty | FindScu find_request "int option"

definition doFind ::
  "(string \<times> string) list \<Rightarrow> config \<Rightarrow> (string \<Rightarrow> int option) \<Rightarrow> string
     \<Rightarrow> (string \<times> string) list \<Rightarrow> string list \<Rightarrow> find_return" where
  "doFind dict cfg parseInt queryLevel query defaults =
     (case search_params dict cfg query
             ((''00080052'', queryLevel) # include_tags dict query defaults) of
        None \<Rightarrow> ReturnedEmpty
      | Some j_tags \<Rightarrow>
          FindScu \<lparr>f_tags = j_tags, f_source = cfg_source cfg, f_target = cfg_target cfg\<rparr>
            (query_offset parseInt query))"

text \<open>
  \<^verbatim>\<open>xs.slice(start)\<close> on an array or a string: a negative start counts from the end,
  \<^verbatim>\<open>NaN\<close> counts as 0, and the start is clamped to the length.
\<close>

definition slice_from :: "'a list \<Rightarrow> int option \<Rightarrow> 'a list" where
  "slice_from xs start =
     (let len = int (length xs);
          relativeStart = (case start of None \<Rightarrow> 0 | Some n \<Rightarrow> n);
          k = (if relativeStart < 0 then max (len + relativeStart) 0
               else min relativeStart len)
      in drop (nat k) xs)"

text \<open>\<^verbatim>\<open>container.slice(offset)\<close>: a TypeError where the value has no such method.\<close>

fun js_slice :: "jsval \<Rightarrow> int option \<Rightarrow> js_error + jsval" where
  "js_slice (JArr xs) start = Inr (JArr (slice_from xs start))"
| "js_slice (JStr s) start = Inr (JStr (slice_from s start))"
| "js_slice v start = Inl TypeError"

text \<open>
  The callback of \<^verbatim>\<open>findScu\<close>, on the promise as it stands: \<open>None\<close> when the
  callback calls neither \<^verbatim>\<open>resolve\<close> nor \<^verbatim>\<open>reject\<close>, otherwise the value it resolves
  with. Every exception of the \<^verbatim>\<open>try\<close> block ends in \<^verbatim>\<open>resolve([])\<close>.
\<close>

definition findScu_try ::
  "(jsval \<Rightarrow> jsval option) \<Rightarrow> int option \<Rightarrow> string \<Rightarrow> js_error + jsval option" where
  "findScu_try JSON_parse offset result =
     (case JSON_parse (JStr result) of
        None \<Rightarrow> Inl SyntaxError
      | Some j \<Rightarrow>
          (case get_prop j ''code'' of
             Inl e \<Rightarrow> Inl e
           | Inr code \<Rightarrow>
               if code = JNum 0 then
                 (case get_prop j ''container'' of
                    Inl e \<Rightarrow> Inl e
                  | Inr encoded \<Rightarrow>
                      (case JSON_parse encoded of
                         None \<Rightarrow> Inl SyntaxError
                       | Some container \<Rightarrow>
                           if truthy container then
                             (case js_slice container offset of
                                Inl e \<Rightarrow> Inl e
                              | Inr sliced \<Rightarrow> Inr (Some sliced))
                           else Inr (Some (JArr []))))
               else Inr None))"

definition findScu_callback ::
  "(jsval \<Rightarrow> jsval option) \<Rightarrow> int option \<Rightarrow> string \<Rightarrow> outcome \<Rightarrow> outcome" where
  "findScu_callback JSON_parse offset result prom =
     (case findScu_try JSON_parse offset result of
        Inl e \<Rightarrow> (if prom = Pending then Resolved (JArr []) else prom)
      | Inr None \<Rightarrow> prom
      | Inr (Some v) \<Rightarrow> (if prom = Pending then Resolved v else prom))"

section \<open>The metadata endpoint\<close>

text \<open>
  What the handler reads from the parsed file: \<^verbatim>\<open>dataset.uint16\<close> and
  \<^verbatim>\<open>dataset.string\<close> give a value or \<^verbatim>\<open>undefined\<close>.
\<close>

record geometry =
  bitsAllocated :: jsval
  bitsStored :: jsval
  highBit :: jsval
  rows :: jsval
  cols :: jsval
  pixelSpacing :: jsval

text \<open>
  \<^verbatim>\<open>fs.readFile\<close> followed by \<^verbatim>\<open>dicomParser.parseDicom\<close>: the read fails, the parser
  throws, or there is a data set.
\<close>

datatype file_read = ReadError | ParseFailure | Dataset geometry

text \<open>
  What the client gets: a status with a JSON body; nothing, because the handler (or the
  callback of the read) threw; or nothing yet, because the handler still awaits a promise.
\<close>

datatype response = Response nat jsval | NoResponse js_error | Awaiting

text \<open>
  The assignment \<^verbatim>\<open>v[key] = x\<close>: a TypeError on \<^verbatim>\<open>undefined\<close> and \<^verbatim>\<open>null\<close>, a
  property set on an object, and no change to what the JSON body shows otherwise.
\<close>

fun set_prop :: "jsval \<Rightarrow> string \<Rightarrow> jsval \<Rightarrow> js_error + jsval" where
  "set_prop JUndefined key x = Inl TypeError"
| "set_prop JNull key x = Inl TypeError"
| "set_prop (JObj kvs) key x = Inr (JObj (AList.update key x kvs))"
| "set_prop v key x = Inr v"

fun set_props :: "jsval \<Rightarrow> (string \<times> jsval) list \<Rightarrow> js_error + jsval" where
  "set_props v [] = Inr v"
| "set_props v ((key, x) # rest) =
     (case set_prop v key x of Inl e \<Rightarrow> Inl e | Inr v' \<Rightarrow> set_props v' rest)"

definition attribute :: "jsval \<Rightarrow> string \<Rightarrow> jsval" where
  "attribute x vr = JObj [(''Value'', JArr [x]), (''vr'', JStr vr)]"

definition geometry_attributes :: "geometry \<Rightarrow> (string \<times> jsval) list" where
  "geometry_attributes g =
     [(''00280100'', attribute (bitsAllocated g) ''US''),
      (''00280101'', attribute (bitsStored g) ''US''),
      (''00280102'', attribute (highBit g) ''US''),
      (''00280010'', attribute (rows g) ''US''),
      (''00280011'', attribute (cols g) ''US''),
      (''00280030'', attribute (pixelSpacing g) ''DS'')]"

text \<open>The loop over the result set; it stops at the first exception.\<close>

fun append_to_all :: "geometry \<Rightarrow> jsval list \<Rightarrow> js_error + jsval list" where
  "append_to_all g [] = Inr []"
| "append_to_all g (r # rs) =
     (case set_props r (geometry_attributes g) of
        Inl e \<Rightarrow> Inl e
      | Inr r' \<Rightarrow>
          (case append_to_all g rs of Inl e \<Rightarrow> Inl e | Inr rs' \<Rightarrow> Inr (r' # rs')))"

text \<open>\<^verbatim>\<open>json[0]["00080018"]["Value"][0]\<close>.\<close>

definition first_sopInstanceUid :: "jsval list \<Rightarrow> js_error + jsval" where
  "first_sopInstanceUid json =
     (case get_index (JArr json) 0 of
        Inl e \<Rightarrow> Inl e
      | Inr r \<Rightarrow>
          (case get_prop r ''00080018'' of
             Inl e \<Rightarrow> Inl e
           | Inr a \<Rightarrow>
               (case get_prop a ''Value'' of
                  Inl e \<Rightarrow> Inl e
                | Inr vs \<Rightarrow> get_index vs 0)))"

text \<open>
  The handler from the point where \<^verbatim>\<open>doFind\<close> has given the array \<open>json\<close>;
  \<open>retrieved\<close> is the promise of \<^verbatim>\<open>waitOrFetchData\<close> that it awaits next.
  \<^verbatim>\<open>path.join\<close> throws a TypeError on an argument that is not a string.
\<close>

definition metadata ::
  "config \<Rightarrow> (string list \<Rightarrow> string) \<Rightarrow> (string \<Rightarrow> file_read) \<Rightarrow> string \<Rightarrow> jsval list
     \<Rightarrow> outcome \<Rightarrow> response" where
  "metadata cfg path_join readFile studyInstanceUid json retrieved =
     (case retrieved of
        Pending \<Rightarrow> Awaiting
      | Rejected e \<Rightarrow> NoResponse e
      | Resolved awaited \<Rightarrow>
          if length json = 0 then Response 500 (JArr json)
          else
            (case (if \<not> truthy awaited then first_sopInstanceUid json else Inr awaited) of
               Inl e \<Rightarrow> NoResponse e
             | Inr sopInstanceUid \<Rightarrow>
                 (case sopInstanceUid of
                    JStr uid \<Rightarrow>
                      (let pathname =
                             path_join [cfg_storagePath cfg, studyInstanceUid, uid] @ ''.dcm''
                       in case readFile pathname of
                            ReadError \<Rightarrow> Response 500 (JArr json)
                          | ParseFailure \<Rightarrow> NoResponse DicomParseError
                          | Dataset g \<Rightarrow>
                              (case append_to_all g json of
                                 Inl e \<Rightarrow> NoResponse e
                               | Inr stamped \<Rightarrow> Response 200 (JArr stamped)))
                  | _ \<Rightarrow> NoResponse TypeError)))"

section \<open>\<^verbatim>\<open>path.join\<close> on POSIX paths\<close>

text \<open>
  \<^verbatim>\<open>path.join\<close> joins its non-empty arguments with a slash and normalizes the result:
  empty segments and \<^verbatim>\<open>.\<close> are dropped, \<^verbatim>\<open>..\<close> removes the segment before it (and
  stays, in a relative path, when there is none to remove), a leading and a trailing slash
  are kept, and the empty path is \<^verbatim>\<open>.\<close>.
\<close>

fun split_slash :: "string \<Rightarrow> string list" where
  "split_slash [] = [[]]"
| "split_slash (c # cs) =
     (if c = CHR ''/'' then [] # split_slash cs
      else (c # hd (split_slash cs)) # tl (split_slash cs))"

fun join_slash :: "string list \<Rightarrow> string" where
  "join_slash [] = []"
| "join_slash [a] = a"
| "join_slash (a # b # rest) = a @ ''/'' @ join_slash (b # rest)"

fun normalize_segments :: "bool \<Rightarrow> string list \<Rightarrow> string list \<Rightarrow> string list" where
  "normalize_segments allowAboveRoot [] res = res"
| "normalize_segments allowAboveRoot (seg # segs) res =
     (if seg = [] \<or> seg = ''.'' then normalize_segments allowAboveRoot segs res
      else if seg = ''..'' then
        (if res \<noteq> [] \<and> last res \<noteq> ''..''
         then normalize_segments allowAboveRoot segs (butlast res)
         else if allowAboveRoot then normalize_segments allowAboveRoot segs (res @ [''..''])
         else normalize_segments allowAboveRoot segs res)
      else normalize_segments allowAboveRoot segs (res @ [seg]))"

definition path_normalize :: "string \<Rightarrow> string" where
  "path_normalize path =
     (if path = [] then ''.''
      else
        (let isAbsolute = (hd path = CHR ''/'');
             trailingSeparator = (last path = CHR ''/'');
             normalized = join_slash (normalize_segments (\<not> isAbsolute) (split_slash path) [])
         in if normalized = [] then
              (if isAbsolute then ''/'' else if trailingSeparator then ''./'' else ''.'')
            else (if isAbsolute then ''/'' else []) @ normalized @
                 (if trailingSeparator then ''/'' else [])))"

definition path_join_posix :: "string list \<Rightarrow> string" where
  "path_join_posix args = path_normalize (join_slash (filter (\<lambda>arg. arg \<noteq> []) args))"

section \<open>Sample inputs\<close>

text \<open>
  A configuration, an empty coordinator, a few dictionary elements, and stand-ins for the
  builtins on the handful of texts the examples use: \<^verbatim>\<open>JSON.parse\<close> as a table from
  text to value, \<^verbatim>\<open>path.join\<close> on plain names, \<^verbatim>\<open>parseInt\<close> as a table.
\<close>

definition sample_config :: config where
  "sample_config =
     \<lparr>cfg_source = \<lparr>aet = ''DICOMWEB_PROXY'', ip = ''127.0.0.1'', port = ''8888''\<rparr>,
      cfg_target = \<lparr>aet = ''CONQUESTSRV1'', ip = ''127.0.0.1'', port = ''5678''\<rparr>,
      cfg_storagePath = ''./data'', cfg_useCget = False, cfg_keepCacheInMinutes = 60,
      cfg_qidoMinChars = 2, cfg_qidoAppendWildcard = True\<rparr>"

definition idle :: coordinator where
  "idle = \<lparr>lock = Map.empty, promises = [], scu_calls = [], then_queue = []\<rparr>"

definition sample_dict :: "(string \<times> string) list" where
  "sample_dict =
     [(''00080018'', ''SOPInstanceUID''), (''00100010'', ''PatientName''),
      (''00100020'', ''PatientID''), (''0020000D'', ''StudyInstanceUID''),
      (''0020000E'', ''SeriesInstanceUID'')]"

definition parse_table :: "(string \<times> jsval) list \<Rightarrow> jsval \<Rightarrow> jsval option" where
  "parse_table texts v = (case v of JStr s \<Rightarrow> map_of texts s | _ \<Rightarrow> None)"

fun join_names :: "string list \<Rightarrow> string" where
  "join_names [] = ''.''"
| "join_names [a] = a"
| "join_names (a # b # rest) = a @ ''/'' @ join_names (b # rest)"

definition sample_parse :: "jsval \<Rightarrow> jsval option" where
  \<open>sample_parse =
     parse_table
       [(''{"code":0,"container":"[10,20,30]"}'',
           JObj [(''code'', JNum 0), (''container'', JStr ''[10,20,30]'')]),
        (''[10,20,30]'', JArr [JNum 10, JNum 20, JNum 30]),
        (''{"code":2,"container":null}'',
           JObj [(''code'', JNum 2), (''container'', JNull)]),
        (''{"code":1,"container":{"SOPInstanceUID":"1.2.3.4"}}'',
           JObj [(''code'', JNum 1),
                 (''container'', JObj [(''SOPInstanceUID'', JStr ''1.2.3.4'')])]),
        (''{"code":0,"container":null}'',
           JObj [(''code'', JNum 0), (''container'', JNull)])]\<close>

definition sample_geometry :: geometry where
  "sample_geometry =
     \<lparr>bitsAllocated = JNum 16, bitsStored = JNum 12, highBit = JNum 11,
      rows = JNum 512, cols = JNum 512, pixelSpacing = JStr ''0.5''\<rparr>"

definition sample_records :: "jsval list" where
  "sample_records =
     [JObj [(''00080018'', JObj [(''Value'', JArr [JStr ''1.2.3.4'']), (''vr'', JStr ''UI'')])],
      JObj [(''00080018'', JObj [(''Value'', JArr [JStr ''1.2.3.5'']), (''vr'', JStr ''UI'')])]]"

definition sample_parseInt :: "string \<Rightarrow> int option" where
  "sample_parseInt = map_of [(''-2'', - 2), (''5'', 5)]"

definition sample_store :: storage where
  "sample_store =
     [(''1.2'', Some 50), (''1.3'', Some 50), (''1.4'', Some 50), (''1.5'', Some 150)]"

section \<open>The retrieve coordinator: single flight\<close>

text \<open>
  As long as \<^verbatim>\<open>lock\<close> holds a promise for the series, \<^verbatim>\<open>waitOrFetchData\<close> returns
  that promise and calls nothing. With no promise held it invokes the collaborator once
  and has the new promise in \<^verbatim>\<open>lock\<close> when it returns, so that a call for the same
  series made next returns the same promise.
\<close>

lemma join_while_registered:
  "(lock st seriesUid = Some p \<longrightarrow>
      waitOrFetchData cfg thr studyUid seriesUid w st = (p, st)) \<and>
   (lock st seriesUid = None \<longrightarrow>
      (let (h1, st1) = waitOrFetchData cfg thr1 studyUid1 seriesUid w1 st;
           (h2, st2) = waitOrFetchData cfg thr2 studyUid2 seriesUid w2 st1
       in lock st1 seriesUid = Some h1 \<and>
          h1 = length (promises st) \<and>
          h2 = h1 \<and> st2 = st1 \<and>
          length (scu_calls st1) = Suc (length (scu_calls st)) \<and>
          scu_calls st2 = scu_calls st1 \<and>
          c_seriesUid (last (scu_calls st2)) = seriesUid \<and>
          c_prom (last (scu_calls st2)) = h1))"
  by (simp add: waitOrFetchData_def fetchData_def Let_def)

text \<open>
  C1. The specification asks for one collaborator invocation and one outcome for two
  calls made while a retrieve of the series is outstanding. On the code, the callback
  removes the series from \<^verbatim>\<open>lock\<close> each time it runs, also when it only logs: after a
  callback that reports one stored object to a retrieve that waits for the whole series,
  the first promise is still pending, and the second call for the series invokes the
  collaborator again and returns another promise.
\<close>

theorem second_retrieve_while_pending:
  \<open>(let (h1, st1) = waitOrFetchData sample_config False ''1.2'' ''1.2.3'' False idle;
        st2 = scu_callback sample_parse (last (scu_calls st1))
                ''{"code":1,"container":{"SOPInstanceUID":"1.2.3.4"}}'' st1;
        (h2, st3) = waitOrFetchData sample_config False ''1.2'' ''1.2.3'' False st2
    in length (scu_calls st1) = 1 \<and> promises st2 ! h1 = Pending \<and>
       h2 \<noteq> h1 \<and> length (scu_calls st3) = 2 \<and>
       promises st3 ! h1 = Pending \<and> promises st3 ! h2 = Pending \<and>
       lock st3 ''1.2.3'' = Some h2)\<close>
  by (simp add: waitOrFetchData_def fetchData_def scu_callback_def callback_try_def
      settle_def Let_def sample_config_def idle_def sample_parse_def parse_table_def)

section \<open>The retrieve coordinator: cleanup of \<^verbatim>\<open>lock\<close>\<close>

text \<open>
  The callback ends with \<^verbatim>\<open>lock.delete(seriesUid)\<close> on every path, also on the one
  that only logs and leaves the promise pending.
\<close>

lemma scu_callback_unlocks:
  "lock (scu_callback JSON_parse c result st) (c_seriesUid c) = None"
  by (simp add: scu_callback_def Let_def)

lemma scu_callback_log_only:
  assumes "callback_try JSON_parse (c_waitForFirstImageOnly c) result = Inr LogOnly"
  shows "promises (scu_callback JSON_parse c result st) = promises st"
  using assms by (simp add: scu_callback_def Let_def)

text \<open>
  When the collaborator throws, the executor rejects the promise, and \<^verbatim>\<open>fetchData\<close>
  goes on to store the rejected promise in \<^verbatim>\<open>lock\<close>; no callback will remove it.
\<close>

lemma fetchData_throw_registers_rejected:
  assumes "fetchData cfg True studyUid seriesUid w st = (p, st')"
  shows "promises st' ! p = Rejected ScuError \<and> lock st' seriesUid = Some p"
  using assms by (auto simp: fetchData_def Let_def)

text \<open>
  C2. The specification asks for the entry to be removed once, after the promise
  settles, and for no entry to stay behind when the request fails at once. On the code: a
  retrieve whose collaborator throws leaves the rejected promise in \<^verbatim>\<open>lock\<close>, where the
  next request for the series finds it; and a callback that reports one stored object to
  a retrieve that waits for the whole series removes the entry while the promise is still
  pending, so that the next request for the series starts a second retrieve.
\<close>

theorem lock_cleanup_misses:
  \<open>(let (p, st) = fetchData sample_config True ''1.2'' ''1.2.3'' False idle
    in promises st ! p = Rejected ScuError \<and> lock st ''1.2.3'' = Some p \<and>
       waitOrFetchData sample_config False ''1.2'' ''1.2.3'' False st = (p, st)) \<and>
   (let (p, st) = fetchData sample_config False ''1.2'' ''1.2.3'' False idle;
        st' = scu_callback sample_parse (last (scu_calls st))
                ''{"code":1,"container":{"SOPInstanceUID":"1.2.3.4"}}'' st
    in lock st ''1.2.3'' = Some p \<and> promises st' ! p = Pending \<and> lock st' ''1.2.3'' = None \<and>
       length (scu_calls st') = 1 \<and>
       length (scu_calls (snd (waitOrFetchData sample_config False ''1.2'' ''1.2.3'' False st'))) = 2)\<close>
  by (simp add: waitOrFetchData_def fetchData_def scu_callback_def callback_try_def
      settle_def Let_def sample_config_def idle_def sample_parse_def parse_table_def)

section \<open>The retrieve coordinator: what the promise resolves with\<close>

text \<open>
  Whatever the callback resolves the promise with is the parsed message, an object: only
  an object has a \<^verbatim>\<open>code\<close> that equals 0, 1 or 2.
\<close>

lemma get_prop_num_object:
  assumes "get_prop json name = Inr (JNum n)"
  shows "\<exists>kvs. json = JObj kvs"
  using assms by (cases json) simp_all

lemma callback_try_resolves_object:
  assumes "callback_try JSON_parse w result = Inr (Resolve v) \<or>
           callback_try JSON_parse w result = Inr (ResolveAndCache v)"
  shows "\<exists>kvs. v = JObj kvs"
proof -
  from assms obtain json code where
    json: "JSON_parse (JStr result) = Some json" "get_prop json ''code'' = Inr code"
      and v: "v = json"
      and code: "code = JNum 1 \<or> code = JNum 0 \<or> code = JNum 2"
    by (auto simp: callback_try_def
        split: option.splits sum.splits if_splits jsval.splits)
  from code json(2) have "\<exists>kvs. json = JObj kvs"
    by (auto dest: get_prop_num_object)
  with v show ?thesis by simp
qed

text \<open>
  C3. With the first-image flag set, the callback that reports one stored object with its
  identifier resolves the promise at once, but with the whole parsed message and not with
  the identifier, which stays inside the message at \<^verbatim>\<open>container.SOPInstanceUID\<close>.
\<close>

theorem first_image_resolves_with_message:
  \<open>(let (p, st) = waitOrFetchData sample_config False ''1.2'' ''1.2.3'' True idle;
        st' = scu_callback sample_parse (last (scu_calls st))
                ''{"code":1,"container":{"SOPInstanceUID":"1.2.3.4"}}'' st
    in promises st ! p = Pending \<and>
       promises st' ! p =
         Resolved (JObj [(''code'', JNum 1),
                         (''container'', JObj [(''SOPInstanceUID'', JStr ''1.2.3.4'')])]) \<and>
       promises st' ! p \<noteq> Resolved (JStr ''1.2.3.4''))\<close>
  by (simp add: waitOrFetchData_def fetchData_def scu_callback_def callback_try_def
      settle_def Let_def sample_config_def idle_def sample_parse_def parse_table_def)

section \<open>The cache entry written on completion\<close>

lemma then_queue_settle: "then_queue (settle p out st) = then_queue st"
  by (simp add: settle_def)

lemma callback_try_terminal:
  assumes "JSON_parse (JStr result) = Some json"
      and "get_prop json ''code'' = Inr (JNum 0) \<or> get_prop json ''code'' = Inr (JNum 2)"
  shows "callback_try JSON_parse w result = Inr (ResolveAndCache json)"
  using assms by (auto simp: callback_try_def)

text \<open>
  C5. A callback that reports code 0 or 2 schedules the look-up of the study in the
  store, and the continuation of that look-up, run at instant \<open>now\<close>: when the store
  holds no date for the study, the retention is not negative, and \<open>now\<close> plus the
  retention in minutes lies within the range of dates, creates the entry with that
  expiry and touches no other entry; leaves the store as it is when the retention is
  negative; and leaves the store as it is when it holds a date for the study.
\<close>

theorem cache_entry_within_date_range:
  assumes "JSON_parse (JStr result) = Some json"
      and "get_prop json ''code'' = Inr (JNum 0) \<or> get_prop json ''code'' = Inr (JNum 2)"
  shows "then_queue (scu_callback JSON_parse c result st) = then_queue st @ [c_studyUid c] \<and>
         ((map_of store (c_studyUid c) = None \<or> map_of store (c_studyUid c) = Some None) \<and>
          0 \<le> cfg_keepCacheInMinutes cfg \<and>
          \<bar>now + cfg_keepCacheInMinutes cfg * 60000\<bar> \<le> 8640000000000000 \<longrightarrow>
            map_of (getItem_then cfg now (c_studyUid c) store) (c_studyUid c)
              = Some (Some (now + cfg_keepCacheInMinutes cfg * 60000)) \<and>
            (\<forall>other. other \<noteq> c_studyUid c \<longrightarrow>
               map_of (getItem_then cfg now (c_studyUid c) store) other = map_of store other)) \<and>
         (cfg_keepCacheInMinutes cfg < 0 \<longrightarrow>
            getItem_then cfg now (c_studyUid c) store = store) \<and>
         (map_of store (c_studyUid c) = Some (Some expiry) \<longrightarrow>
            getItem_then cfg now (c_studyUid c) store = store)"
proof -
  have "then_queue (scu_callback JSON_parse c result st) = then_queue st @ [c_studyUid c]"
    using callback_try_terminal [where JSON_parse = JSON_parse and result = result, OF assms]
    by (simp add: scu_callback_def Let_def then_queue_settle)
  moreover have "(map_of store (c_studyUid c) = None \<or> map_of store (c_studyUid c) = Some None) \<and>
      0 \<le> cfg_keepCacheInMinutes cfg \<and>
      \<bar>now + cfg_keepCacheInMinutes cfg * 60000\<bar> \<le> 8640000000000000 \<longrightarrow>
      map_of (getItem_then cfg now (c_studyUid c) store) (c_studyUid c)
        = Some (Some (now + cfg_keepCacheInMinutes cfg * 60000)) \<and>
      (\<forall>other. other \<noteq> c_studyUid c \<longrightarrow>
         map_of (getItem_then cfg now (c_studyUid c) store) other = map_of store other)"
    by (auto simp: getItem_then_def addMinutes_def new_Date_def update_conv' Let_def)
  moreover have "cfg_keepCacheInMinutes cfg < 0 \<longrightarrow>
      getItem_then cfg now (c_studyUid c) store = store"
    by (simp add: getItem_then_def Let_def)
  moreover have "map_of store (c_studyUid c) = Some (Some expiry) \<longrightarrow>
      getItem_then cfg now (c_studyUid c) store = store"
    by (simp add: getItem_then_def Let_def)
  ultimately show ?thesis by blast
qed

theorem cache_entry_within_date_range_witness:
  \<open>sample_parse (JStr ''{"code":2,"container":null}'')
     = Some (JObj [(''code'', JNum 2), (''container'', JNull)]) \<and>
   get_prop (JObj [(''code'', JNum 2), (''container'', JNull)]) ''code'' = Inr (JNum 2) \<and>
   (let (p, st) = fetchData sample_config False ''1.2'' ''1.2.3'' False idle
    in then_queue (scu_callback sample_parse (last (scu_calls st))
                     ''{"code":2,"container":null}'' st) = [''1.2'']) \<and>
   \<bar>1000 + cfg_keepCacheInMinutes sample_config * 60000\<bar> \<le> (8640000000000000::int) \<and>
   getItem_then sample_config 1000 ''1.2'' [] = [(''1.2'', Some 3601000)] \<and>
   getItem_then sample_config 1000 ''1.2'' [(''1.2'', None)] = [(''1.2'', Some 3601000)] \<and>
   getItem_then (sample_config\<lparr>cfg_keepCacheInMinutes := - 1\<rparr>) 1000 ''1.2'' [] = [] \<and>
   getItem_then sample_config 1000 ''1.2'' [(''1.2'', Some 7)] = [(''1.2'', Some 7)]\<close>
proof -
  let ?msg = "JObj [(''code'', JNum 2), (''container'', JNull)]"
  obtain p st where started:
    "fetchData sample_config False ''1.2'' ''1.2.3'' False idle = (p, st)"
    by (cases "fetchData sample_config False ''1.2'' ''1.2.3'' False idle")
  have call: "c_studyUid (last (scu_calls st)) = ''1.2''" and queue: "then_queue st = []"
    using started by (auto simp: fetchData_def Let_def idle_def)
  have parsed: \<open>sample_parse (JStr ''{"code":2,"container":null}'') = Some ?msg\<close>
    by (simp add: sample_parse_def parse_table_def)
  have code: "get_prop ?msg ''code'' = Inr (JNum 0) \<or> get_prop ?msg ''code'' = Inr (JNum 2)"
    by simp
  have range: "\<bar>1000 + cfg_keepCacheInMinutes sample_config * 60000\<bar> \<le> (8640000000000000::int)"
    by (simp add: sample_config_def)
  have kept: "map_of [(''1.2'', Some (7::int))] ''1.2'' = Some (Some 7)"
    by simp
  note inst = cache_entry_within_date_range [where JSON_parse = sample_parse
      and c = "last (scu_calls st)" and st = st, OF parsed code]
  have \<open>then_queue (scu_callback sample_parse (last (scu_calls st))
           ''{"code":2,"container":null}'' st) = [''1.2'']\<close>
    using inst [of "[]" sample_config 0 0] call queue by simp
  moreover have "getItem_then sample_config 1000 ''1.2'' [(''1.2'', Some 7)] = [(''1.2'', Some 7)]"
    using inst [of "[(''1.2'', Some 7)]" sample_config 1000 7] call kept by simp
  moreover have "getItem_then (sample_config\<lparr>cfg_keepCacheInMinutes := - 1\<rparr>) 1000 ''1.2'' [] = []"
    using inst [of "[]" "sample_config\<lparr>cfg_keepCacheInMinutes := - 1\<rparr>" 1000 0] call
    by simp
  moreover have "getItem_then sample_config 1000 ''1.2'' [] = [(''1.2'', Some 3601000)]"
    by (simp add: getItem_then_def addMinutes_def new_Date_def sample_config_def)
  moreover have "getItem_then sample_config 1000 ''1.2'' [(''1.2'', None)]
      = [(''1.2'', Some 3601000)]"
    by (simp add: getItem_then_def addMinutes_def new_Date_def sample_config_def)
  ultimately show ?thesis
    using parsed started range by simp
qed

text \<open>
  Beyond the range of dates the continuation stores an Invalid Date: with a retention of
  200000000000 minutes and no entry for the study, the entry created holds \<^verbatim>\<open>null\<close>
  and not the instant \<open>now\<close> plus the retention.
\<close>

theorem cache_entry_beyond_date_range:
  "0 \<le> cfg_keepCacheInMinutes (sample_config\<lparr>cfg_keepCacheInMinutes := 200000000000\<rparr>) \<and>
   map_of ([] :: storage) ''1.2'' = None \<and>
   map_of (getItem_then (sample_config\<lparr>cfg_keepCacheInMinutes := 200000000000\<rparr>)
             1000 ''1.2'' []) ''1.2'' = Some None \<and>
   map_of (getItem_then (sample_config\<lparr>cfg_keepCacheInMinutes := 200000000000\<rparr>)
             1000 ''1.2'' []) ''1.2'' \<noteq> Some (Some (1000 + 200000000000 * 60000))"
  by (simp add: getItem_then_def addMinutes_def new_Date_def sample_config_def)

section \<open>The eviction sweep\<close>

lemma forEach_visit_set:
  "(key, directory) \<in> set (forEach_visit path_join storagePath currentUid currentDate store) \<longleftrightarrow>
     directory = path_join [storagePath, key] \<and>
     (\<exists>v. (key, v) \<in> set store \<and> item_time v < currentDate \<and> key \<noteq> currentUid)"
  by (induction store) (auto simp: Let_def split: if_splits)

lemma rmdir_all_store:
  "map_of (fst (rmdir_all rmdir_error requests (store, deleted))) key =
     (if \<exists>directory. (key, directory) \<in> set requests \<and> \<not> rmdir_error directory
      then None else map_of store key)"
proof (induction requests arbitrary: store deleted)
  case Nil
  then show ?case by simp
next
  case (Cons r requests)
  obtain k d where r: "r = (k, d)" by (cases r)
  show ?case
    unfolding r by (auto simp: Cons.IH rmdir_callback_def delete_conv')
qed

lemma rmdir_all_entries:
  "(key, v) \<in> set (fst (rmdir_all rmdir_error requests (store, deleted))) \<longleftrightarrow>
     (key, v) \<in> set store \<and>
     \<not> (\<exists>directory. (key, directory) \<in> set requests \<and> \<not> rmdir_error directory)"
proof (induction requests arbitrary: store deleted)
  case Nil
  then show ?case by simp
next
  case (Cons r requests)
  obtain k d where r: "r = (k, d)" by (cases r)
  show ?case
    unfolding r by (auto simp: Cons.IH rmdir_callback_def AList.delete_eq)
qed

lemma rmdir_all_deleted:
  "set (snd (rmdir_all rmdir_error requests (store, deleted))) =
     set deleted \<union> {directory. \<exists>key. (key, directory) \<in> set requests \<and> \<not> rmdir_error directory}"
proof (induction requests arbitrary: store deleted)
  case Nil
  then show ?case by simp
next
  case (Cons r requests)
  obtain k d where r: "r = (k, d)" by (cases r)
  show ?case
    unfolding r by (auto simp: Cons.IH)
qed

text \<open>
  C6. For an entry that the sweep visits, with the instant read from it before the
  current instant and a key other than the protected id: when the deletion of its directory fails, the store
  still holds the entry after the sweep, for a later sweep to visit, and the directory is
  not among those deleted; the entry is gone after the sweep only when the deletion
  succeeded, and then it is gone.
\<close>

theorem sweep_removes_only_after_deletion:
  assumes "(key, v) \<in> set store" and "item_time v < currentDate" and "key \<noteq> currentUid"
  shows "(rmdir_error (path_join [storagePath, key]) \<longrightarrow>
            (key, v) \<in> set (fst (clearCache path_join rmdir_error storagePath currentUid
                                     currentDate store)) \<and>
            map_of (fst (clearCache path_join rmdir_error storagePath currentUid currentDate store)) key
              = map_of store key \<and>
            map_of store key \<noteq> None \<and>
            path_join [storagePath, key]
              \<notin> set (snd (clearCache path_join rmdir_error storagePath currentUid currentDate store))) \<and>
         (map_of (fst (clearCache path_join rmdir_error storagePath currentUid currentDate store)) key = None
            \<longrightarrow> \<not> rmdir_error (path_join [storagePath, key])) \<and>
         (\<not> rmdir_error (path_join [storagePath, key]) \<longrightarrow>
            map_of (fst (clearCache path_join rmdir_error storagePath currentUid currentDate store)) key = None)"
proof -
  have present: "map_of store key \<noteq> None"
    using assms(1) by (metis map_of_eq_None_iff fst_conv image_eqI)
  have requested: "(key, path_join [storagePath, key])
      \<in> set (forEach_visit path_join storagePath currentUid currentDate store)"
    using assms by (auto simp: forEach_visit_set)
  show ?thesis
    using present requested assms(1)
    by (auto simp: clearCache_def rmdir_all_store rmdir_all_deleted rmdir_all_entries
        forEach_visit_set)
qed

theorem sweep_removes_only_after_deletion_witness:
  "(''1.3'', Some 50) \<in> set sample_store \<and> (''1.4'', Some 50) \<in> set sample_store \<and>
   item_time (Some 50) < 100 \<and> ''1.3'' \<noteq> ''1.2'' \<and> ''1.4'' \<noteq> ''1.2'' \<and>
   join_names [''./data'', ''1.3''] = ''./data/1.3'' \<and>
   join_names [''./data'', ''1.4''] \<noteq> ''./data/1.3'' \<and>
   (''1.3'', Some 50) \<in> set (fst (clearCache join_names (\<lambda>directory. directory = ''./data/1.3'')
                               ''./data'' ''1.2'' 100 sample_store)) \<and>
   map_of (fst (clearCache join_names (\<lambda>directory. directory = ''./data/1.3'')
                  ''./data'' ''1.2'' 100 sample_store)) ''1.4'' = None \<and>
   ''./data/1.3'' \<notin> set (snd (clearCache join_names (\<lambda>directory. directory = ''./data/1.3'')
                                ''./data'' ''1.2'' 100 sample_store))"
proof -
  have e3: "(''1.3'', Some 50) \<in> set sample_store"
    and e4: "(''1.4'', Some 50) \<in> set sample_store"
    by (simp_all add: sample_store_def)
  have old: "item_time (Some 50) < 100" by (simp add: item_time_def)
  have k3: "''1.3'' \<noteq> ''1.2''" and k4: "''1.4'' \<noteq> ''1.2''" by simp_all
  have d3: "join_names [''./data'', ''1.3''] = ''./data/1.3''"
    and d4: "join_names [''./data'', ''1.4''] \<noteq> ''./data/1.3''"
    by simp_all
  have held: "map_of sample_store ''1.3'' = Some (Some 50)"
    by (simp add: sample_store_def)
  note failing = sweep_removes_only_after_deletion [OF e3 old k3,
      of "\<lambda>directory. directory = ''./data/1.3''" join_names "''./data''"]
  note deleting = sweep_removes_only_after_deletion [OF e4 old k4,
      of "\<lambda>directory. directory = ''./data/1.3''" join_names "''./data''"]
  have "(''1.3'', Some 50) \<in> set (fst (clearCache join_names (\<lambda>directory. directory = ''./data/1.3'')
                               ''./data'' ''1.2'' 100 sample_store)) \<and>
        ''./data/1.3'' \<notin> set (snd (clearCache join_names (\<lambda>directory. directory = ''./data/1.3'')
                                ''./data'' ''1.2'' 100 sample_store))"
    using failing d3 held by simp
  moreover have "map_of (fst (clearCache join_names (\<lambda>directory. directory = ''./data/1.3'')
                  ''./data'' ''1.2'' 100 sample_store)) ''1.4'' = None"
    using deleting d4 by simp
  ultimately show ?thesis
    using e3 e4 old d3 d4 by simp
qed

text \<open>
  The sweep leaves the entry of the protected id as it was, whatever its expiry, and
  issues no deletion on behalf of that id.
\<close>

lemma sweep_keeps_protected_entry:
  "map_of (fst (clearCache path_join rmdir_error storagePath currentUid currentDate store)) currentUid
     = map_of store currentUid \<and>
   currentUid \<notin> fst ` set (forEach_visit path_join storagePath currentUid currentDate store)"
  by (auto simp: clearCache_def rmdir_all_store forEach_visit_set)

text \<open>
  C7. The specification asks for the directory of the protected id never to be deleted.
  On the code, the guard compares keys, and the directory deleted is what
  \<^verbatim>\<open>path.join\<close> makes of the storage root and the key: an expired entry whose key is
  another text for the same directory, or for a directory above it, has the protected
  directory deleted, here with the protected entry not even expired. The entry of the
  protected id stays in the store.
\<close>

theorem sweep_deletes_protected_directory:
  "path_join_posix [''./data'', ''1.2''] = ''data/1.2'' \<and>
   ''1.3/../1.2'' \<noteq> ''1.2'' \<and>
   path_join_posix [''./data'', ''1.3/../1.2''] = ''data/1.2'' \<and>
   clearCache path_join_posix (\<lambda>directory. False) ''./data'' ''1.2'' 100
       [(''1.2'', Some 500), (''1.3/../1.2'', Some 50)]
     = ([(''1.2'', Some 500)], [''data/1.2'']) \<and>
   path_join_posix [''./data'', ''.''] = ''data'' \<and>
   clearCache path_join_posix (\<lambda>directory. False) ''./data'' ''1.2'' 100
       [(''1.2'', Some 500), (''.'', Some 50)]
     = ([(''1.2'', Some 500)], [''data''])"
  by (simp add: clearCache_def rmdir_callback_def item_time_def path_join_posix_def
      path_normalize_def Let_def)

section \<open>The query translator: the patient-name policy\<close>





section \<open>The query translator: the offset\<close>

lemma slice_from_negative:
  "0 < k \<Longrightarrow> slice_from xs (Some (- int k)) = drop (length xs - min k (length xs)) xs"
  by (auto simp: slice_from_def Let_def min_def max_def intro!: arg_cong [where f = "\<lambda>n. drop n xs"])

text \<open>
  C10. When the \<^verbatim>\<open>offset\<close> parameter parses to \<open>- k\<close> with \<open>k\<close> positive, and the
  collaborator reports code 0 with a container that parses to an array, the promise
  resolves with the last \<open>min k n\<close> of the \<open>n\<close> records.
\<close>

theorem negative_offset_takes_tail:
  assumes "map_of query ''offset'' = Some s" and "s \<noteq> []"
      and "parseInt s = Some (- int k)" and "0 < k"
      and "doFind dict cfg parseInt queryLevel query defaults = FindScu request offset"
      and "JSON_parse (JStr result) = Some j"
      and "get_prop j ''code'' = Inr (JNum 0)"
      and "get_prop j ''container'' = Inr encoded"
      and "JSON_parse encoded = Some (JArr records)"
  shows "findScu_callback JSON_parse offset result Pending =
           Resolved (JArr (drop (length records - min k (length records)) records))"
proof -
  have "offset = Some (- int k)"
    using assms(1,2,3,5) by (auto simp: doFind_def query_offset_def split: option.splits)
  then show ?thesis
    using assms(4,6,7,8,9)
    by (simp add: findScu_callback_def findScu_try_def slice_from_negative)
qed

theorem negative_offset_takes_tail_witness:
  \<open>map_of [(''offset'', ''-2'')] ''offset'' = Some ''-2'' \<and>
   sample_parseInt ''-2'' = Some (- int 2) \<and>
   (\<exists>request. doFind sample_dict sample_config sample_parseInt ''IMAGE'' [(''offset'', ''-2'')] []
      = FindScu request (Some (- 2))) \<and>
   sample_parse (JStr ''{"code":0,"container":"[10,20,30]"}'')
     = Some (JObj [(''code'', JNum 0), (''container'', JStr ''[10,20,30]'')]) \<and>
   sample_parse (JStr ''[10,20,30]'') = Some (JArr [JNum 10, JNum 20, JNum 30]) \<and>
   findScu_callback sample_parse (Some (- 2)) ''{"code":0,"container":"[10,20,30]"}'' Pending
     = Resolved (JArr [JNum 20, JNum 30])\<close>
proof -
  let ?msg = "JObj [(''code'', JNum 0), (''container'', JStr ''[10,20,30]'')]"
  let ?request = "\<lparr>f_tags = [(''00080052'', ''IMAGE'')], f_source = cfg_source sample_config,
                    f_target = cfg_target sample_config\<rparr>"
  have h1: "map_of [(''offset'', ''-2'')] ''offset'' = Some ''-2''" by simp
  have h2: "''-2'' \<noteq> []" by simp
  have h3: "sample_parseInt ''-2'' = Some (- int 2)" by (simp add: sample_parseInt_def)
  have h4: "0 < (2::nat)" by simp
  have h5: "doFind sample_dict sample_config sample_parseInt ''IMAGE'' [(''offset'', ''-2'')] []
      = FindScu ?request (Some (- 2))"
    by (simp add: doFind_def include_tags_def query_offset_def sample_dict_def
        sample_parseInt_def)
  have h6: \<open>sample_parse (JStr ''{"code":0,"container":"[10,20,30]"}'') = Some ?msg\<close>
    by (simp add: sample_parse_def parse_table_def)
  have h7: "get_prop ?msg ''code'' = Inr (JNum 0)" by simp
  have h8: "get_prop ?msg ''container'' = Inr (JStr ''[10,20,30]'')" by simp
  have h9: "sample_parse (JStr ''[10,20,30]'') = Some (JArr [JNum 10, JNum 20, JNum 30])"
    by (simp add: sample_parse_def parse_table_def)
  have \<open>findScu_callback sample_parse (Some (- 2)) ''{"code":0,"container":"[10,20,30]"}'' Pending
      = Resolved (JArr [JNum 20, JNum 30])\<close>
    using negative_offset_takes_tail [where JSON_parse = sample_parse and parseInt = sample_parseInt,
        OF h1 h2 h3 h4 h5 h6 h7 h8 h9]
    by simp
  then show ?thesis
    using h1 h3 h5 h6 h9 by simp
qed

section \<open>The query translator: answers of the collaborator\<close>

text \<open>
  A text that does not parse ends in the \<^verbatim>\<open>catch\<close> block, which resolves with the
  empty array. A message whose code is not 0 passes the \<^verbatim>\<open>if\<close> with no \<^verbatim>\<open>else\<close>:
  the callback returns without touching the promise.
\<close>

lemma findScu_callback_unparseable:
  assumes "JSON_parse (JStr result) = None"
  shows "findScu_callback JSON_parse offset result Pending = Resolved (JArr [])"
  using assms by (simp add: findScu_callback_def findScu_try_def)

lemma findScu_callback_other_code:
  assumes "JSON_parse (JStr result) = Some j"
      and "get_prop j ''code'' = Inr code" and "code \<noteq> JNum 0"
  shows "findScu_callback JSON_parse offset result prom = prom"
  using assms by (simp add: findScu_callback_def findScu_try_def)

text \<open>
  C4. The specification asks for the empty list both on a malformed answer and on an answer with
  an error code. On the code, the malformed answer resolves the promise with the empty
  array, and the answer with code 2 leaves the promise pending.
\<close>

theorem find_error_code_stays_pending:
  \<open>sample_parse (JStr ''not json'') = None \<and>
   findScu_callback sample_parse (Some 0) ''not json'' Pending = Resolved (JArr []) \<and>
   sample_parse (JStr ''{"code":2,"container":null}'')
     = Some (JObj [(''code'', JNum 2), (''container'', JNull)]) \<and>
   findScu_callback sample_parse (Some 0) ''{"code":2,"container":null}'' Pending = Pending\<close>
  by (simp add: findScu_callback_def findScu_try_def sample_parse_def parse_table_def)

section \<open>The metadata endpoint\<close>

text \<open>What the loop does to a result set of objects, and what a stamped record holds.\<close>

lemma set_props_object:
  "set_props (JObj kvs) attrs = Inr (JObj (fold (\<lambda>(key, x). AList.update key x) attrs kvs))"
  by (induction attrs arbitrary: kvs) auto

lemma append_to_all_objects:
  "append_to_all g (map JObj rs) =
     Inr (map (\<lambda>kvs. JObj (fold (\<lambda>(key, x). AList.update key x) (geometry_attributes g) kvs)) rs)"
  by (induction rs) (simp_all add: set_props_object)

lemma stamped_record_holds:
  assumes "(key, x) \<in> set (geometry_attributes g)"
  shows "get_prop (JObj (fold (\<lambda>(key, x). AList.update key x) (geometry_attributes g) kvs)) key
           = Inr x"
  using assms by (auto simp: geometry_attributes_def update_conv')

text \<open>
  Handed an identifier, the handler reads the file of that identifier and answers with
  every record stamped.
\<close>

lemma metadata_given_identifier:
  assumes "rs \<noteq> []" and "uid \<noteq> []"
      and "readFile (path_join [cfg_storagePath cfg, studyInstanceUid, uid] @ ''.dcm'') = Dataset g"
  shows "metadata cfg path_join readFile studyInstanceUid (map JObj rs) (Resolved (JStr uid)) =
           Response 200
             (JArr (map (\<lambda>kvs. JObj (fold (\<lambda>(key, x). AList.update key x)
                                      (geometry_attributes g) kvs)) rs))"
  using assms by (simp add: metadata_def append_to_all_objects)

text \<open>Handed an object, it throws at \<^verbatim>\<open>path.join\<close>, before any file is read.\<close>

lemma metadata_given_object:
  assumes "json \<noteq> []"
  shows "metadata cfg path_join readFile studyInstanceUid json (Resolved (JObj kvs)) =
           NoResponse TypeError"
  using assms by (simp add: metadata_def)

lemma metadata_after_retrieve:
  assumes "callback_try JSON_parse w result = Inr (Resolve v) \<or>
           callback_try JSON_parse w result = Inr (ResolveAndCache v)"
      and "json \<noteq> []"
  shows "metadata cfg path_join readFile studyInstanceUid json (Resolved v) = NoResponse TypeError"
  using callback_try_resolves_object [OF assms(1)] metadata_given_object [OF assms(2)]
  by auto

text \<open>
  C9. The specification asks for every record of a non-empty result set to be stamped from the
  readable file. On the code, the handler awaits the retrieve first and uses what it
  resolves with as the identifier: that value is the parsed message, \<^verbatim>\<open>path.join\<close>
  throws, and the client gets neither the stamped records nor an error status, with the
  file readable and two records in the result set. An empty result set is answered with
  status 500.
\<close>

theorem metadata_throws_on_retrieve_outcome:
  \<open>sample_records \<noteq> [] \<and>
   (let (p, st) = waitOrFetchData sample_config False ''1.2'' ''1.2.3'' True idle;
        st' = scu_callback sample_parse (last (scu_calls st))
                ''{"code":1,"container":{"SOPInstanceUID":"1.2.3.4"}}'' st
    in metadata sample_config join_names (\<lambda>pathname. Dataset sample_geometry) ''1.2''
         sample_records (promises st' ! p) = NoResponse TypeError \<and>
       metadata sample_config join_names (\<lambda>pathname. Dataset sample_geometry) ''1.2''
         [] (promises st' ! p) = Response 500 (JArr []))\<close>
  by (simp add: waitOrFetchData_def fetchData_def scu_callback_def callback_try_def
      settle_def Let_def sample_config_def idle_def sample_parse_def parse_table_def
      metadata_def sample_records_def)

end
